theory Spec2Isabelle
  imports Complex_Main
begin

section \<open>Mixed-radix positional numbers (histropy/units/radices.py)\<close>

text \<open>
  A shallow embedding of \<^verbatim>\<open>RadixBase\<close> and \<^verbatim>\<open>BasedReal\<close>.

  Conventions of the embedding:
  \<^item> Python integers are \<open>int\<close>; digits are integers (a \<^verbatim>\<open>float\<close> digit, which
    \<^verbatim>\<open>__check_range\<close> rejects with \<^verbatim>\<open>IllegalFloatValueError\<close>, is outside the digit type).
  \<^item> Python floats (the remainder, \<^verbatim>\<open>__float__\<close>, the argument of \<^verbatim>\<open>from_float\<close>) are
    idealised as exact rationals \<open>rat\<close>: no rounding, no overflow, no NaN.
  \<^item> An exception is a value \<open>Inl e\<close>; a computation that does not return is \<open>None\<close>.
    Every operation has a result of type \<open>(error + 'a) option\<close>.
  \<^item> Memoisation (\<^verbatim>\<open>@cached\<close>) is not modelled: the cached functions are pure.
\<close>

subsection \<open>Errors and results\<close>

datatype error =
    EmptyStringException
  | TooManySeparators
  | IllegalBaseValueError
  | IllegalFloatValueError
  | TypeMismatch
  | ValueError
  | NotImplementedError
  | AttributeError
  | IndexError
  | ZeroDivisionError
  | OverflowError
  | UnboundLocalError

type_synonym 'a res = "(error + 'a) option"

definition ret :: "'a \<Rightarrow> 'a res" where
  "ret x = Some (Inr x)"

definition raise :: "error \<Rightarrow> 'a res" where
  "raise e = Some (Inl e)"

definition bnd :: "'a res \<Rightarrow> ('a \<Rightarrow> 'b res) \<Rightarrow> 'b res" where
  "bnd m f = (case m of None \<Rightarrow> None | Some (Inl e) \<Rightarrow> Some (Inl e) | Some (Inr x) \<Rightarrow> f x)"

subsection \<open>LoopingList\<close>

text \<open>
  Modelled from the spec: \<^verbatim>\<open>LoopingList\<close> (histropy/utils/looping_list.py is not among the
  sources). Section 4.1: indexing \<open>s[i]\<close> returns element \<open>i mod n\<close>, negative indices wrap
  identically (\<open>s[-1] == s[n-1]\<close>). A looping list is its finite pattern; the spec requires
  the pattern to be non-empty (section 3), and for an empty pattern the element read is left
  unspecified.
\<close>

definition looping_get :: "'a list \<Rightarrow> int \<Rightarrow> 'a" where
  "looping_get xs i = xs ! nat (i mod int (length xs))"

subsection \<open>Strings\<close>

text \<open>
  Strings are ASCII. \<^verbatim>\<open>str.strip\<close> and \<^verbatim>\<open>int\<close> skip the ASCII white space of Python;
  \<^verbatim>\<open>str.lower\<close> maps the capital letters.
\<close>

definition is_space :: "char \<Rightarrow> bool" where
  "is_space c = (c \<in> set [CHR '' '', CHR 0x09, CHR 0x0A, CHR 0x0B, CHR 0x0C, CHR 0x0D,
                            CHR 0x1C, CHR 0x1D, CHR 0x1E, CHR 0x1F])"

definition strip :: "string \<Rightarrow> string" where
  "strip s = rev (dropWhile is_space (rev (dropWhile is_space s)))"

definition lower_char :: "char \<Rightarrow> char" where
  "lower_char c =
     (case map_of (zip ''ABCDEFGHIJKLMNOPQRSTUVWXYZ'' ''abcdefghijklmnopqrstuvwxyz'') c of
        None \<Rightarrow> c | Some d \<Rightarrow> d)"

definition upper_char :: "char \<Rightarrow> char" where
  "upper_char c =
     (case map_of (zip ''abcdefghijklmnopqrstuvwxyz'' ''ABCDEFGHIJKLMNOPQRSTUVWXYZ'') c of
        None \<Rightarrow> c | Some d \<Rightarrow> d)"

definition lower :: "string \<Rightarrow> string" where
  "lower s = map lower_char s"

text \<open>\<^verbatim>\<open>str.capitalize\<close>: first character upper case, the rest lower case.\<close>

definition capitalize :: "string \<Rightarrow> string" where
  "capitalize s = (case s of [] \<Rightarrow> [] | c # cs \<Rightarrow> upper_char c # lower cs)"

text \<open>\<^verbatim>\<open>s.split(c)\<close> for a one-character separator.\<close>

fun split_char :: "char \<Rightarrow> string \<Rightarrow> string list" where
  "split_char c [] = [[]]"
| "split_char c (x # xs) =
     (if x = c then [] # split_char c xs
      else (case split_char c xs of [] \<Rightarrow> [[x]] | h # t \<Rightarrow> (x # h) # t))"

text \<open>
  \<^verbatim>\<open>s.split(sep, 1)\<close> for a non-empty separator: the parts before and after the first
  occurrence, or \<open>None\<close> when the separator does not occur (one part).
\<close>

fun split_first :: "string \<Rightarrow> string \<Rightarrow> string \<Rightarrow> (string \<times> string) option" where
  "split_first sep acc [] = None"
| "split_first sep acc (c # cs) =
     (if take (length sep) (c # cs) = sep then Some (rev acc, drop (length sep) (c # cs))
      else split_first sep (c # acc) cs)"

text \<open>\<^verbatim>\<open>str(n)\<close> for an integer.\<close>

function str_nat :: "nat \<Rightarrow> string" where
  "str_nat n =
     (if n < 10 then [''0123456789'' ! n]
      else str_nat (n div 10) @ [''0123456789'' ! (n mod 10)])"
  by pat_completeness auto
termination
  by (relation "measure id") auto

declare str_nat.simps [simp del]

definition str_int :: "int \<Rightarrow> string" where
  "str_int n = (if n < 0 then CHR ''-'' # str_nat (nat (- n)) else str_nat (nat n))"

text \<open>
  \<^verbatim>\<open>int(s)\<close> on a string: surrounding white space, an optional sign, decimal digits with
  single underscores between them; anything else raises \<^verbatim>\<open>ValueError\<close>.
\<close>

definition digit_value :: "char \<Rightarrow> int option" where
  "digit_value c = map_of (zip ''0123456789'' [0, 1, 2, 3, 4, 5, 6, 7, 8, 9]) c"

fun valid_literal :: "string \<Rightarrow> bool" where
  "valid_literal [] = False"
| "valid_literal [c] = (digit_value c \<noteq> None)"
| "valid_literal (c # d # cs) =
     (digit_value c \<noteq> None
      \<and> (if d = CHR ''_'' then valid_literal cs else valid_literal (d # cs)))"

definition literal_value :: "string \<Rightarrow> int" where
  "literal_value s =
     foldl (\<lambda>acc c. case digit_value c of None \<Rightarrow> acc | Some d \<Rightarrow> 10 * acc + d) 0 s"

definition int_of_string :: "string \<Rightarrow> error + int" where
  "int_of_string s =
     (let t = strip s;
          (sg, u) = (case t of
                       c # cs \<Rightarrow> if c = CHR ''-'' then (- 1, cs)
                                  else if c = CHR ''+'' then (1, cs) else (1, t)
                     | [] \<Rightarrow> (1, t))
      in if valid_literal u then Inr (sg * literal_value u) else Inl ValueError)"

fun ints_of_strings :: "string list \<Rightarrow> error + int list" where
  "ints_of_strings [] = Inr []"
| "ints_of_strings (s # ss) =
     (case int_of_string s of
        Inl e \<Rightarrow> Inl e
      | Inr n \<Rightarrow> (case ints_of_strings ss of Inl e \<Rightarrow> Inl e | Inr ns \<Rightarrow> Inr (n # ns)))"

subsection \<open>RadixBase\<close>

record RadixBase =
  left :: "int list"
  right :: "int list"
  name :: string
  integer_separators :: "string list"

text \<open>\<^verbatim>\<open>RadixBase.__getitem__\<close>: the radix at a position.\<close>

definition radix_at :: "RadixBase \<Rightarrow> int \<Rightarrow> int" where
  "radix_at b pos =
     (if pos \<le> 0 then looping_get (left b) (pos - 1) else looping_get (right b) (pos - 1))"

text \<open>\<^verbatim>\<open>RadixBase.float_at_pos\<close>; a division by a radix 0 raises.\<close>

fun float_at_pos_right :: "int list \<Rightarrow> nat list \<Rightarrow> rat \<Rightarrow> error + rat" where
  "float_at_pos_right rs [] factor = Inr factor"
| "float_at_pos_right rs (i # is) factor =
     (if looping_get rs (int i) = 0 then Inl ZeroDivisionError
      else float_at_pos_right rs is (factor / of_int (looping_get rs (int i))))"

fun float_at_pos_left :: "int list \<Rightarrow> nat list \<Rightarrow> rat \<Rightarrow> rat" where
  "float_at_pos_left ls [] factor = factor"
| "float_at_pos_left ls (i # is) factor =
     float_at_pos_left ls is (factor * of_int (looping_get ls (int i)))"

definition float_at_pos :: "RadixBase \<Rightarrow> int \<Rightarrow> rat res" where
  "float_at_pos b pos =
     (if pos > 0 then Some (float_at_pos_right (right b) [0..<nat pos] 1)
      else if pos = 0 then ret 1
      else ret (float_at_pos_left (left b) [0..<nat (- pos)] 1))"

subsection \<open>The registry of bases\<close>

text \<open>
  The class attribute \<^verbatim>\<open>RadixBase.name_to_base\<close> and the number types that
  \<^verbatim>\<open>RadixBase.__init__\<close> sets as attributes of the module, each bound to its base.
\<close>

record registry =
  name_to_base :: "string \<rightharpoonup> RadixBase"
  module_types :: "string \<rightharpoonup> RadixBase"

text \<open>
  \<^verbatim>\<open>RadixBase.__init__\<close>. The body has no check of the radices and no \<^verbatim>\<open>raise\<close>; in the
  embedding it is a total function that returns the new base and the updated registry.
\<close>

definition RadixBase_init ::
  "int list \<Rightarrow> int list \<Rightarrow> string \<Rightarrow> string list option \<Rightarrow> registry \<Rightarrow> RadixBase \<times> registry" where
  "RadixBase_init l r nm seps reg =
     (let self = \<lparr>left = l, right = r, name = nm,
                  integer_separators =
                    (case seps of
                       Some xs \<Rightarrow> xs
                     | None \<Rightarrow> map (\<lambda>x. if x \<noteq> 10 then '','' else []) l)\<rparr>;
          type_name = concat (map capitalize (split_char CHR ''_'' nm))
      in (self, \<lparr>name_to_base = (name_to_base reg)(nm \<mapsto> self),
                 module_types = (module_types reg)(type_name \<mapsto> self)\<rparr>))"

text \<open>The bases defined at the end of the module, used by the scenarios.\<close>

definition empty_registry :: registry where
  "empty_registry = \<lparr>name_to_base = Map.empty, module_types = Map.empty\<rparr>"

definition sexagesimal :: RadixBase where
  "sexagesimal = fst (RadixBase_init [60] [60] ''sexagesimal'' None empty_registry)"

definition decimal :: RadixBase where
  "decimal = fst (RadixBase_init [10] [10] ''decimal'' None empty_registry)"

definition temporal :: RadixBase where
  "temporal = fst (RadixBase_init [10] [24, 60] ''temporal'' None empty_registry)"

definition historical :: RadixBase where
  "historical =
     fst (RadixBase_init [10, 12, 30] [60] ''historical'' (Some [[], ''r '', ''s '']) empty_registry)"

subsection \<open>BasedReal: the value and its constructor\<close>

record BasedReal =
  base :: RadixBase
  v_left :: "int list"
  v_right :: "int list"
  remainder :: rat
  sign :: int

text \<open>
  \<^verbatim>\<open>__check_range\<close>. Both loops of the source run over \<^verbatim>\<open>self.left\<close>: the first compares
  the integer digits, from the radix point outwards, with the radices of the positions
  \<open>0, -1, ...\<close>; the second compares the same integer digits, in order, with the radices of
  the fractional positions \<open>1, 2, ...\<close>. The comparison is \<^verbatim>\<open>s > radix\<close>.
\<close>

definition check_range :: "RadixBase \<Rightarrow> int list \<Rightarrow> int list \<Rightarrow> int \<Rightarrow> error + unit" where
  "check_range b l r sg =
     (if sg \<noteq> - 1 \<and> sg \<noteq> 1 then Inl ValueError
      else if list_ex (\<lambda>(i, s). s < 0 \<or> s > radix_at b (- int i)) (enumerate 0 (rev l))
        then Inl IllegalBaseValueError
      else if list_ex (\<lambda>(i, s). s < 0 \<or> s > radix_at b (int i + 1)) (enumerate 0 l)
        then Inl IllegalBaseValueError
      else Inr ())"

text \<open>
  \<^verbatim>\<open>__new__\<close> on two digit tuples (the shape every other shape is reduced to), with
  \<^verbatim>\<open>__simplify_integer_part\<close>: when leading zeros were removed the constructor is called
  again on the shortened integer part.
\<close>

function BasedReal_new :: "RadixBase \<Rightarrow> int list \<Rightarrow> int list \<Rightarrow> rat \<Rightarrow> int \<Rightarrow> BasedReal res" where
  "BasedReal_new b l r rem sg =
     (case check_range b l r sg of
        Inl e \<Rightarrow> raise e
      | Inr _ \<Rightarrow>
          if l \<noteq> [] \<and> hd l = 0 then BasedReal_new b (dropWhile (\<lambda>x. x = 0) l) r rem sg
          else ret \<lparr>base = b, v_left = (if l = [] then [0] else l), v_right = r,
                     remainder = rem, sign = sg\<rparr>)"
  by pat_completeness auto
termination
proof (relation "measure (\<lambda>(b, l, r, rem, sg). length l)")
  show "wf (measure (\<lambda>(b, l, r, rem, sg). length l))" by simp
next
  fix b :: RadixBase and l r :: "int list" and rem :: rat and sg :: int and x2 :: unit
  assume "l \<noteq> [] \<and> hd l = 0"
  then obtain y ys where l: "l = y # ys" and y: "y = 0" by (cases l) auto
  have "length (dropWhile (\<lambda>x. x = 0) ys) \<le> length ys" by (rule length_dropWhile_le)
  then show "((b, dropWhile (\<lambda>x. x = 0) l, r, rem, sg), (b, l, r, rem, sg))
        \<in> measure (\<lambda>(b, l, r, rem, sg). length l)"
    using l y by simp
qed

declare BasedReal_new.simps [simp del]

text \<open>\<^verbatim>\<open>__new__\<close> on integers only: they are the integer digits.\<close>

definition BasedReal_ints :: "RadixBase \<Rightarrow> int list \<Rightarrow> rat \<Rightarrow> int \<Rightarrow> BasedReal res" where
  "BasedReal_ints b ds rem sg = BasedReal_new b ds [] rem sg"

subsection \<open>Conversion to and from a number\<close>

text \<open>\<^verbatim>\<open>int(x)\<close> on a number: truncation towards zero.\<close>

definition py_int :: "rat \<Rightarrow> int" where
  "py_int x = (if x \<ge> 0 then \<lfloor>x\<rfloor> else \<lceil>x\<rceil>)"

text \<open>\<^verbatim>\<open>self[:]\<close>: the integer digits followed by the fractional digits.\<close>

definition digits :: "BasedReal \<Rightarrow> int list" where
  "digits v = v_left v @ v_right v"

text \<open>\<^verbatim>\<open>__float__\<close>: the two loops, then the remainder and the sign.\<close>

fun float_left_loop :: "int list \<Rightarrow> int list \<Rightarrow> nat list \<Rightarrow> rat \<times> rat \<Rightarrow> rat \<times> rat" where
  "float_left_loop bl l [] st = st"
| "float_left_loop bl l (i # is) (val, factor) =
     float_left_loop bl l is
       (val + factor * of_int (rev l ! i), factor * of_int (looping_get bl (int i)))"

fun float_right_loop :: "int list \<Rightarrow> int list \<Rightarrow> nat list \<Rightarrow> rat \<times> rat \<Rightarrow> error + rat \<times> rat" where
  "float_right_loop br r [] st = Inr st"
| "float_right_loop br r (i # is) (val, factor) =
     (if looping_get br (int i) = 0 then Inl ZeroDivisionError
      else float_right_loop br r is
        (val + factor / of_int (looping_get br (int i)) * of_int (r ! i),
         factor / of_int (looping_get br (int i))))"

definition to_float :: "BasedReal \<Rightarrow> rat res" where
  "to_float v =
     (let (val, factor) = float_left_loop (left (base v)) (v_left v) [0..<length (v_left v)] (0, 1)
      in case float_right_loop (right (base v)) (v_right v) [0..<length (v_right v)] (val, 1) of
           Inl e \<Rightarrow> raise e
         | Inr (val', factor') \<Rightarrow> ret ((val' + factor' * remainder v) * of_int (sign v)))"

text \<open>
  \<^verbatim>\<open>from_float\<close>. The \<^verbatim>\<open>while\<close> loop that sizes the integer part need not end (a radix
  below 2 keeps \<^verbatim>\<open>max_integer\<close> from growing), so it is a partial function.
\<close>

partial_function (option) grow_integer :: "int list \<Rightarrow> rat \<Rightarrow> int \<Rightarrow> int \<Rightarrow> (int \<times> int) option" where
  "grow_integer bl floa max_integer pos =
     (if floa \<ge> of_int max_integer
      then grow_integer bl floa (max_integer * looping_get bl pos) (pos + 1)
      else Some (max_integer, pos))"

fun from_float_left :: "int list \<Rightarrow> nat list \<Rightarrow> int \<times> rat \<times> int list \<Rightarrow> error + int \<times> rat \<times> int list" where
  "from_float_left bl [] st = Inr st"
| "from_float_left bl (i # is) (int_factor, floa, ds) =
     (if looping_get bl (int i) = 0 then Inl ZeroDivisionError
      else let int_factor' = int_factor div looping_get bl (int i) in
        if int_factor' = 0 then Inl ZeroDivisionError
        else let position_value = py_int (floa / of_int int_factor') in
          from_float_left bl is
            (int_factor', floa - of_int position_value * of_int int_factor', ds @ [position_value]))"

fun from_float_right :: "int list \<Rightarrow> nat list \<Rightarrow> rat \<times> rat \<times> int list \<Rightarrow> error + rat \<times> rat \<times> int list" where
  "from_float_right br [] st = Inr st"
| "from_float_right br (i # is) (factor, floa, ds) =
     (if looping_get br (int i) = 0 then Inl ZeroDivisionError
      else let factor' = factor / of_int (looping_get br (int i)) in
        if factor' = 0 then Inl ZeroDivisionError
        else let position_value = py_int (floa / factor') in
          from_float_right br is
            (factor', floa - of_int position_value * factor', ds @ [position_value]))"

definition from_float :: "RadixBase \<Rightarrow> rat \<Rightarrow> int \<Rightarrow> BasedReal res" where
  "from_float b floa0 significant =
     (let sg = (if floa0 < 0 then - 1 else 1 :: int); floa = floa0 * of_int sg in
      case grow_integer (left b) floa 1 0 of
        None \<Rightarrow> None
      | Some (max_integer, pos) \<Rightarrow>
         (case from_float_left (left b) [0..<nat pos] (max_integer, floa, []) of
            Inl e \<Rightarrow> raise e
          | Inr (int_factor, floa1, ls) \<Rightarrow>
             (case from_float_right (right b) [0..<nat significant] (1, floa1, []) of
                Inl e \<Rightarrow> raise e
              | Inr (factor, floa2, rs) \<Rightarrow>
                  if factor = 0 then raise ZeroDivisionError
                  else BasedReal_new b ls rs (floa2 / factor) sg)))"

declare grow_integer.simps [code]

definition zero :: "RadixBase \<Rightarrow> int \<Rightarrow> BasedReal res" where
  "zero b significant = from_float b 0 significant"

definition one :: "RadixBase \<Rightarrow> int \<Rightarrow> BasedReal res" where
  "one b significant = from_float b 1 significant"

subsection \<open>resize, truncate, shift\<close>

text \<open>Python's \<^verbatim>\<open>xs[:n]\<close> and \<^verbatim>\<open>xs[n:]\<close>; a negative bound counts from the end.\<close>

definition py_upto :: "int \<Rightarrow> 'a list \<Rightarrow> 'a list" where
  "py_upto n xs = (if n \<ge> 0 then take (nat n) xs else take (nat (int (length xs) + n)) xs)"

definition py_from :: "int \<Rightarrow> 'a list \<Rightarrow> 'a list" where
  "py_from n xs = (if n \<ge> 0 then drop (nat n) xs else drop (nat (int (length xs) + n)) xs)"

definition resize :: "BasedReal \<Rightarrow> int \<Rightarrow> BasedReal res" where
  "resize v significant =
     (if significant = int (length (v_right v)) then ret v
      else bnd (float_at_pos (base v) (int (length (v_right v)))) (\<lambda>factor.
        let remainderValue = factor * remainder v in
        if significant > int (length (v_right v)) then
          bnd (from_float (base v) (of_int (sign v) * remainderValue) significant) (\<lambda>rem.
            BasedReal_new (base v) (v_left v)
              (v_right v @ py_from (int (length (v_right v))) (v_right rem))
              (remainder rem) (sign v))
        else if significant \<ge> 0 then
          bnd (BasedReal_new (base v) [] (py_from significant (v_right v)) (remainder v) 1) (\<lambda>rem.
            bnd (to_float rem) (\<lambda>f.
              BasedReal_new (base v) (v_left v) (py_upto significant (v_right v)) f (sign v)))
        else raise NotImplementedError))"

definition truncate :: "BasedReal \<Rightarrow> int \<Rightarrow> BasedReal res" where
  "truncate v n =
     (if n > int (length (v_right v)) then ret v
      else BasedReal_new (base v) (v_left v) (py_upto n (v_right v)) 0 (sign v))"

definition shift :: "BasedReal \<Rightarrow> int \<Rightarrow> BasedReal res" where
  "shift v i =
     (if i = 0 then ret v
      else
        let left_right = replicate (nat i) 0 @ digits v @ replicate (nat (- i)) 0;
            offset = (if i > 0 then int (length (v_left v)) else int (length (v_left v)) - i);
            l = py_upto offset left_right;
            r = (if - i > offset then py_upto (- i) (py_from offset left_right)
                 else py_from offset left_right)
        in BasedReal_new (base v) l r (remainder v) (sign v))"

subsection \<open>Sign, comparison, addition\<close>

definition neg :: "BasedReal \<Rightarrow> BasedReal res" where
  "neg v = BasedReal_new (base v) (v_left v) (v_right v) (remainder v) (- sign v)"

definition abs_value :: "BasedReal \<Rightarrow> BasedReal res" where
  "abs_value v = (if sign v \<ge> 0 then ret v else neg v)"

text \<open>\<^verbatim>\<open>__gt__\<close> compares the numeric projections.\<close>

definition gt :: "BasedReal \<Rightarrow> BasedReal \<Rightarrow> bool res" where
  "gt a b = bnd (to_float a) (\<lambda>x. bnd (to_float b) (\<lambda>y. ret (x > y)))"

text \<open>
  \<^verbatim>\<open>__eq__\<close>: structural when both operands have the same type and the same number of
  fractional digits, numeric otherwise. Two values have the same type when they are bound
  to the same base.
\<close>

definition eq :: "BasedReal \<Rightarrow> BasedReal \<Rightarrow> bool res" where
  "eq a b =
     (if base a \<noteq> base b \<or> length (v_right a) \<noteq> length (v_right b)
      then bnd (to_float a) (\<lambda>x. bnd (to_float b) (\<lambda>y. ret (x = y)))
      else ret (sign a = sign b \<and> v_right a = v_right b \<and> v_left a = v_left b
                \<and> remainder a = remainder b))"

text \<open>
  The local function \<^verbatim>\<open>add\<close> of \<^verbatim>\<open>__add__\<close>: the signed digits of one operand are added
  into the working array from the least significant end; a digit outside
  \<open>[0, radix)\<close> is reduced modulo the radix of its position and one unit is carried or
  borrowed.
\<close>

fun add_digits :: "RadixBase \<Rightarrow> int \<Rightarrow> (nat \<times> int) list \<Rightarrow> int list \<Rightarrow> error + int list" where
  "add_digits b maxright [] array = Inr array"
| "add_digits b maxright ((i, r) # rest) array =
     (if i \<ge> length array then Inl IndexError
      else
        let n = array ! i + r; factor = radix_at b (maxright - int i) in
        if n < 0 \<or> n \<ge> factor then
          (if factor = 0 then Inl ZeroDivisionError
           else if Suc i \<ge> length array then Inl IndexError
           else add_digits b maxright rest
                  (array[i := n mod factor, Suc i := array ! Suc i + (if n > 0 then 1 else - 1)]))
        else add_digits b maxright rest (array[i := n]))"

definition to_add :: "nat \<Rightarrow> BasedReal \<Rightarrow> (nat \<times> int) list" where
  "to_add len_numbers values =
     enumerate 0 (map (\<lambda>x. sign values * x) (rev (digits values))
                  @ replicate (len_numbers - length (digits values) - 1) 0)"

text \<open>\<^verbatim>\<open>__add__\<close> on two values of the same type.\<close>

definition add_same :: "BasedReal \<Rightarrow> BasedReal \<Rightarrow> BasedReal res" where
  "add_same self other =
     (let maxright = max (length (v_right self)) (length (v_right other));
          maxleft = max (length (v_left self)) (length (v_left other)) in
      bnd (resize self (int maxright)) (\<lambda>va0.
      bnd (resize other (int maxright)) (\<lambda>vb0.
      bnd (abs_value va0) (\<lambda>aa.
      bnd (abs_value vb0) (\<lambda>ab.
      bnd (gt aa ab) (\<lambda>g.
        let sg = (if g then sign va0 else sign vb0) in
        bnd (if sg < 0 then neg va0 else ret va0) (\<lambda>va.
        bnd (if sg < 0 then neg vb0 else ret vb0) (\<lambda>vb.
          let rem0 = remainder va * of_int (sign va) + remainder vb * of_int (sign vb);
              numbers = py_int rem0 # replicate (max (length (digits va)) (length (digits vb))) 0;
              rem = rem0 - of_int (py_int rem0)
          in case add_digits (base self) (int maxright) (to_add (length numbers) va) numbers of
               Inl e \<Rightarrow> raise e
             | Inr numbers1 \<Rightarrow>
                (case add_digits (base self) (int maxright) (to_add (length numbers) vb) numbers1 of
                   Inl e \<Rightarrow> raise e
                 | Inr numbers2 \<Rightarrow>
                     let result = map abs (rev numbers2) in
                     BasedReal_new (base self) (take (maxleft + 1) result)
                       (drop (maxleft + 1) result) rem sg)))))))))"

text \<open>
  \<^verbatim>\<open>__add__\<close> with a number as the other operand: the number is converted with
  \<^verbatim>\<open>from_float\<close> at the precision of \<^verbatim>\<open>self\<close>.
\<close>

definition add_float :: "BasedReal \<Rightarrow> rat \<Rightarrow> BasedReal res" where
  "add_float self x =
     bnd (from_float (base self) x (int (length (v_right self)))) (\<lambda>other. add_same self other)"

text \<open>
  \<^verbatim>\<open>__add__\<close>: an operand of another type (a value bound to another base) is projected
  to a number and converted; no error is raised.
\<close>

definition add :: "BasedReal \<Rightarrow> BasedReal \<Rightarrow> BasedReal res" where
  "add self other =
     (if base self \<noteq> base other then bnd (to_float other) (\<lambda>x. add_float self x)
      else add_same self other)"

definition sub :: "BasedReal \<Rightarrow> BasedReal \<Rightarrow> BasedReal res" where
  "sub self other = bnd (neg other) (\<lambda>m. add self m)"

subsection \<open>Rounding\<close>

text \<open>\<^verbatim>\<open>__round__\<close>; \<open>None\<close> is the omitted argument.\<close>

definition round_value :: "BasedReal \<Rightarrow> int option \<Rightarrow> BasedReal res" where
  "round_value v significant_opt =
     (let significant = (case significant_opt of None \<Rightarrow> int (length (v_right v)) | Some s \<Rightarrow> s) in
      bnd (resize v significant) (\<lambda>n.
      bnd (if remainder n \<ge> 1 / 2
           then bnd (BasedReal_ints (base v) [1] 0 (sign v)) (\<lambda>u.
                bnd (shift u significant) (\<lambda>u'. add n u'))
           else ret n) (\<lambda>n'.
      truncate n' significant)))"

subsection \<open>Multiplication\<close>

text \<open>
  The accumulation loop of \<^verbatim>\<open>__mul__\<close> over one row of partial products: a sum outside
  \<open>[0, radix)\<close> is reduced modulo the radix and its quotient carried.
\<close>

fun mul_row :: "RadixBase \<Rightarrow> int \<Rightarrow> (nat \<times> int) list \<Rightarrow> int list \<Rightarrow> error + int list" where
  "mul_row b max_right [] count = Inr count"
| "mul_row b max_right ((i, r) # rest) count =
     (if i \<ge> length count then Inl IndexError
      else
        let n = count ! i + r; factor = radix_at b (max_right - int i) in
        if n < 0 \<or> n \<ge> factor then
          (if factor = 0 then Inl ZeroDivisionError
           else if Suc i \<ge> length count then Inl IndexError
           else mul_row b max_right rest
                  (count[i := n mod factor, Suc i := count ! Suc i + n div factor]))
        else mul_row b max_right rest (count[i := n]))"

fun mul_rows :: "RadixBase \<Rightarrow> int \<Rightarrow> int list list \<Rightarrow> int list \<Rightarrow> error + int list" where
  "mul_rows b max_right [] count = Inr count"
| "mul_rows b max_right (n # ns) count =
     (case mul_row b max_right (enumerate 0 n) count of
        Inl e \<Rightarrow> Inl e
      | Inr count' \<Rightarrow> mul_rows b max_right ns count')"

text \<open>
  The \<^verbatim>\<open>while count[-1] != 0\<close> loop, which extends the array while the top entry is not
  zero; it need not end (a negative top entry, or a radix 1, is never exhausted).
\<close>

partial_function (option) mul_carry :: "RadixBase \<Rightarrow> int \<Rightarrow> int list \<Rightarrow> (error + int list) option" where
  "mul_carry b max_right count =
     (if count = [] then Some (Inl IndexError)
      else if last count \<noteq> 0 then
        (if radix_at b (max_right - int (length count)) = 0 then Some (Inl ZeroDivisionError)
         else mul_carry b max_right
                (butlast count @ [last count mod radix_at b (max_right - int (length count)),
                                  last count div radix_at b (max_right - int (length count))]))
      else Some (Inr count))"

declare mul_carry.simps [code]

text \<open>
  \<^verbatim>\<open>__mul__\<close> on two values of the same type. The correction term is a number, added
  with \<^verbatim>\<open>__add__\<close>.
\<close>

definition mul_same :: "BasedReal \<Rightarrow> BasedReal \<Rightarrow> BasedReal res" where
  "mul_same self other =
     (let sg = sign self * sign other;
          max_right = max (length (v_right self)) (length (v_right other)) in
      bnd (resize self (int max_right)) (\<lambda>va.
      bnd (resize other (int max_right)) (\<lambda>vb.
        let numbers = map (\<lambda>(i, fv). replicate i 0 @ rev (map (\<lambda>s. fv * s) (digits vb)))
                          (enumerate 0 (rev (digits va))) in
        if numbers = [] then raise ValueError
        else
          let count = replicate (Max (set (map length numbers))) 0 @ [0] in
          case mul_rows (base self) (int max_right) numbers count of
            Inl e \<Rightarrow> raise e
          | Inr count1 \<Rightarrow>
              bnd (mul_carry (base self) (int max_right) count1) (\<lambda>count2.
              bnd (BasedReal_ints (base self) (rev count2) 0 1) (\<lambda>res0.
              bnd (shift res0 (2 * int max_right)) (\<lambda>res1.
              bnd (float_at_pos (base self) (int max_right)) (\<lambda>w.
                let vb_rem = w * remainder vb; va_rem = w * remainder va in
                bnd (to_float va) (\<lambda>fa.
                bnd (to_float vb) (\<lambda>fb.
                bnd (add_float res1 (fa * vb_rem + fb * va_rem + va_rem * vb_rem)) (\<lambda>res2.
                  if sg < 0 then neg res2 else ret res2))))))))))"

text \<open>
  \<^verbatim>\<open>__mul__\<close>. For an operand of another type the source calls
  \<^verbatim>\<open>self.from_float(other, self.significant)\<close> on the value itself, not on its numeric
  projection; \<^verbatim>\<open>from_float\<close> then divides that value by a number, and \<^verbatim>\<open>__truediv__\<close>
  reads the attribute \<^verbatim>\<open>right\<close> of the number.
\<close>

definition mul :: "BasedReal \<Rightarrow> BasedReal \<Rightarrow> BasedReal res" where
  "mul self other =
     (if base self \<noteq> base other then raise AttributeError else mul_same self other)"

subsection \<open>Division\<close>

text \<open>
  \<^verbatim>\<open>sign\<close> and \<^verbatim>\<open>remainder\<close> are properties without a setter: an assignment to them
  raises \<^verbatim>\<open>AttributeError\<close>.
\<close>

definition set_sign :: "BasedReal \<Rightarrow> int \<Rightarrow> BasedReal res" where
  "set_sign v s = raise AttributeError"

definition set_remainder :: "BasedReal \<Rightarrow> rat \<Rightarrow> BasedReal res" where
  "set_remainder v r = raise AttributeError"

text \<open>\<^verbatim>\<open>euclidian_div\<close>: the body is \<^verbatim>\<open>raise NotImplementedError()\<close>.\<close>

definition euclidian_div :: "BasedReal \<Rightarrow> BasedReal \<Rightarrow> (BasedReal \<times> BasedReal) res" where
  "euclidian_div self other = raise NotImplementedError"

text \<open>
  \<^verbatim>\<open>__int_idiv\<close>, up to its first assignment \<^verbatim>\<open>self.remainder /= n\<close>, which raises.
\<close>

definition int_idiv :: "BasedReal \<Rightarrow> int \<Rightarrow> int \<Rightarrow> BasedReal res" where
  "int_idiv self n significant =
     bnd (if significant \<noteq> 0 then resize self significant else ret self) (\<lambda>_.
       if n = 0 then raise ZeroDivisionError
       else set_remainder self (remainder self / of_int n))"

text \<open>
  \<^verbatim>\<open>division\<close>: the type check, the two assignments to \<^verbatim>\<open>sign\<close> on the copies, the zero
  accumulator, and the first iteration of the loop up to \<^verbatim>\<open>q.__int_idiv\<close>; when the
  loop is empty, the statement after it reads the loop variable \<^verbatim>\<open>i\<close>, which is unbound.
  No statement after these is reached, since none of \<^verbatim>\<open>set_sign\<close>,
  \<^verbatim>\<open>euclidian_div\<close> and \<^verbatim>\<open>__int_idiv\<close> returns.
\<close>

definition division :: "BasedReal \<Rightarrow> BasedReal \<Rightarrow> int \<Rightarrow> BasedReal res" where
  "division self other significant =
     (if base self \<noteq> base other then raise TypeMismatch
      else
        bnd (set_sign self 1) (\<lambda>num_nv.
        bnd (set_sign other 1) (\<lambda>denom_nv.
        bnd (zero (base self) significant) (\<lambda>q_res.
          if significant + 1 > 0
          then bnd (euclidian_div num_nv denom_nv) (\<lambda>(q, r). int_idiv q 1 significant)
          else bnd (to_float num_nv) (\<lambda>x. bnd (to_float denom_nv) (\<lambda>y.
                 if y = 0 then raise ZeroDivisionError else raise UnboundLocalError))))))"

definition truediv :: "BasedReal \<Rightarrow> BasedReal \<Rightarrow> BasedReal res" where
  "truediv self other =
     division self other (int (max (length (v_right self)) (length (v_right other))) + 5)"

subsection \<open>Parsing and rendering\<close>

text \<open>
  The loop of \<^verbatim>\<open>from_string\<close> over the reversed integer part. The result is the pair of
  \<^verbatim>\<open>rleft\<close> and \<^verbatim>\<open>left_numbers\<close> when the loop is left, by \<^verbatim>\<open>break\<close> or at its end.
\<close>

fun parse_left :: "RadixBase \<Rightarrow> nat list \<Rightarrow> string \<Rightarrow> int list \<Rightarrow> error + string \<times> int list" where
  "parse_left b [] rleft left_numbers = Inr (rleft, left_numbers)"
| "parse_left b (i # is) rleft left_numbers =
     (let separator = lower (strip (looping_get (integer_separators b) (- int i - 1))) in
      case (if separator \<noteq> [] then
              (case split_first separator [] rleft of
                 None \<Rightarrow> Inr None
               | Some (val, rem) \<Rightarrow> Inr (Some (val, rem)))
            else (case rleft of [] \<Rightarrow> Inl IndexError | c # cs \<Rightarrow> Inr (Some ([c], cs)))) of
        Inl e \<Rightarrow> Inl e
      | Inr None \<Rightarrow> Inr (rleft, left_numbers)
      | Inr (Some (val, rem)) \<Rightarrow>
          (case int_of_string (rev val) of
             Inl e \<Rightarrow> Inl e
           | Inr n \<Rightarrow>
               if length (strip rem) = 1 then Inr (strip rem, n # left_numbers)
               else parse_left b is (strip rem) (n # left_numbers)))"

text \<open>
  \<^verbatim>\<open>from_string\<close>. For the base named \<^verbatim>\<open>decimal\<close> the source converts the string with
  Python's \<^verbatim>\<open>float\<close>; that parser is the parameter \<open>py_float\<close>.
\<close>

definition from_string :: "(string \<Rightarrow> error + rat) \<Rightarrow> RadixBase \<Rightarrow> string \<Rightarrow> BasedReal res" where
  "from_string py_float b string0 =
     (if name b = ''decimal'' then
        (case py_float string0 of
           Inl e \<Rightarrow> raise e
         | Inr x \<Rightarrow> from_float b x (int (length string0)))
      else
        let string1 = lower (strip string0) in
        if length string1 = 0 then raise EmptyStringException
        else
          let sg = (if hd string1 = CHR ''-'' then - 1 else 1 :: int);
              string2 = (if hd string1 = CHR ''-'' then tl string1 else string1);
              left_right = split_char CHR '';'' string2 in
          if length left_right > 2 then raise TooManySeparators
          else
            let l = strip (hd left_right);
                r = strip (if length left_right < 2 then [] else left_right ! 1) in
            case (if length r > 0 then ints_of_strings (split_char CHR '','' r) else Inr []) of
              Inl e \<Rightarrow> raise e
            | Inr right_numbers \<Rightarrow>
               (case (if length l > 0 then
                        (case parse_left b [0..<length l] (rev l) [] of
                           Inl e \<Rightarrow> Inl e
                         | Inr (rleft, left_numbers) \<Rightarrow>
                            (case int_of_string (rev rleft) of
                               Inl e \<Rightarrow> Inl e
                             | Inr n \<Rightarrow> Inr (n # left_numbers)))
                      else Inr []) of
                  Inl e \<Rightarrow> raise e
                | Inr left_numbers \<Rightarrow> BasedReal_new b left_numbers right_numbers 0 sg))"

text \<open>
  \<^verbatim>\<open>ndigit_for_radix\<close>: the least \<open>k\<close> with \<open>radix \<le> 10 ^ k\<close>, the exact value of
  \<open>ceil(log10(radix))\<close>; the logarithm of a radix below 1 is infinite or undefined and its
  conversion to an integer raises.
\<close>

function ceil_log10 :: "nat \<Rightarrow> nat" where
  "ceil_log10 n = (if n \<le> 1 then 0 else Suc (ceil_log10 ((n + 9) div 10)))"
  by pat_completeness auto
termination
  by (relation "measure id") auto

declare ceil_log10.simps [simp del]

definition ndigit_for_radix :: "int \<Rightarrow> error + nat" where
  "ndigit_for_radix radix =
     (if radix = 0 then Inl OverflowError
      else if radix < 0 then Inl ValueError
      else Inr (ceil_log10 (nat radix)))"

definition pad :: "int \<Rightarrow> int \<Rightarrow> error + string" where
  "pad radix d =
     (case ndigit_for_radix radix of
        Inl e \<Rightarrow> Inl e
      | Inr digit \<Rightarrow> Inr (replicate (digit - length (str_int d)) CHR ''0'' @ str_int d))"

fun repr_left :: "RadixBase \<Rightarrow> int list \<Rightarrow> nat list \<Rightarrow> string \<Rightarrow> error + string" where
  "repr_left b l [] res = Inr res"
| "repr_left b l (i # is) res =
     (case pad (looping_get (left b) (int i)) (l ! i) of
        Inl e \<Rightarrow> Inl e
      | Inr p \<Rightarrow>
          repr_left b l is
            (res @ (if i > 0 then looping_get (integer_separators b) (int i) else []) @ p))"

fun repr_right :: "RadixBase \<Rightarrow> int list \<Rightarrow> nat list \<Rightarrow> string \<Rightarrow> error + string" where
  "repr_right b r [] res = Inr res"
| "repr_right b r (i # is) res =
     (case pad (looping_get (right b) (int i)) (r ! i) of
        Inl e \<Rightarrow> Inl e
      | Inr p \<Rightarrow> repr_right b r is (res @ p @ (if i + 1 < length r then '','' else [])))"

text \<open>\<^verbatim>\<open>__repr__\<close>: the canonical rendering, of the value rounded at its own precision.\<close>

definition repr :: "BasedReal \<Rightarrow> string res" where
  "repr v =
     bnd (round_value v None) (\<lambda>nv.
       if name (base nv) = ''decimal''
       then ret (concat (map str_int (v_left nv)) @ ''.'' @ concat (map str_int (v_right nv)))
       else
         case repr_left (base nv) (v_left nv) [0..<length (v_left nv)]
                (if sign nv < 0 then ''-'' else []) of
           Inl e \<Rightarrow> raise e
         | Inr res1 \<Rightarrow>
            (case repr_right (base nv) (v_right nv) [0..<length (v_right nv)] (res1 @ '' ; '') of
               Inl e \<Rightarrow> raise e
             | Inr res2 \<Rightarrow> ret res2))"

subsection \<open>Notions used in the statements\<close>

text \<open>
  A value of the program is a record that the constructor returns unchanged when it is
  given the record's own fields. In a base whose radices are all at least 2 every record
  the constructor returns is such a value (\<open>constructed_is_value\<close> below).
\<close>

definition is_value :: "BasedReal \<Rightarrow> bool" where
  "is_value v = (BasedReal_new (base v) (v_left v) (v_right v) (remainder v) (sign v) = ret v)"

text \<open>The invariant of a base in the spec: non-empty patterns, every radix at least 2.\<close>

definition valid_base :: "RadixBase \<Rightarrow> bool" where
  "valid_base b = (left b \<noteq> [] \<and> right b \<noteq> [] \<and> list_all (\<lambda>r. 2 \<le> r) (left b)
                   \<and> list_all (\<lambda>r. 2 \<le> r) (right b))"

section \<open>Properties\<close>

subsection \<open>Results and the constructor\<close>

lemma bnd_ret: "bnd (ret x) f = f x"
  by (simp add: bnd_def ret_def)

lemma bnd_raise: "bnd (raise e) f = raise e"
  by (simp add: bnd_def raise_def)

lemma bnd_None: "bnd None f = None"
  by (simp add: bnd_def)

lemma bnd_cong_ret: "(\<And>x. m = ret x \<Longrightarrow> f x = g x) \<Longrightarrow> bnd m f = bnd m g"
  by (auto simp: bnd_def ret_def split: option.splits sum.splits)

lemma ret_neq_raise: "ret x \<noteq> raise e"
  by (simp add: ret_def raise_def)

lemma ret_inject: "(ret x = ret y) = (x = y)"
  by (simp add: ret_def)

text \<open>The constructor copies the base, the fractional digits, the remainder and the sign.\<close>

lemma new_fields:
  "BasedReal_new b l r rem sg = ret v \<Longrightarrow>
     base v = b \<and> v_right v = r \<and> remainder v = rem \<and> sign v = sg"
proof (induction b l r rem sg rule: BasedReal_new.induct)
  case (1 b l r rem sg)
  show ?case
  proof (cases "check_range b l r sg")
    case (Inl e)
    with "1.prems" show ?thesis
      by (subst (asm) BasedReal_new.simps) (simp add: ret_def raise_def)
  next
    case (Inr u)
    show ?thesis
    proof (cases "l \<noteq> [] \<and> hd l = 0")
      case True
      with Inr "1.prems" have "BasedReal_new b (dropWhile (\<lambda>x. x = 0) l) r rem sg = ret v"
        by (subst (asm) BasedReal_new.simps) simp
      with "1.IH" Inr True show ?thesis by blast
    next
      case False
      with Inr "1.prems" show ?thesis
        by (subst (asm) BasedReal_new.simps) (auto simp: ret_def)
    qed
  qed
qed

text \<open>
  The range check never reads the fractional digits or the remainder, so the outcome of
  the constructor does not depend on them.
\<close>

lemma new_change_right:
  "BasedReal_new b l r rem sg = ret v \<Longrightarrow>
     BasedReal_new b l r' rem' sg = ret (v\<lparr>v_right := r', remainder := rem'\<rparr>)"
proof (induction b l r rem sg rule: BasedReal_new.induct)
  case (1 b l r rem sg)
  show ?case
  proof (cases "check_range b l r sg")
    case (Inl e)
    with "1.prems" show ?thesis
      by (subst (asm) BasedReal_new.simps) (simp add: ret_def raise_def)
  next
    case (Inr u)
    then have c: "check_range b l r' sg = Inr u"
      by (simp add: check_range_def)
    show ?thesis
    proof (cases "l \<noteq> [] \<and> hd l = 0")
      case True
      with Inr "1.prems" have "BasedReal_new b (dropWhile (\<lambda>x. x = 0) l) r rem sg = ret v"
        by (subst (asm) BasedReal_new.simps) simp
      with "1.IH" Inr True
      have "BasedReal_new b (dropWhile (\<lambda>x. x = 0) l) r' rem' sg
              = ret (v\<lparr>v_right := r', remainder := rem'\<rparr>)"
        by blast
      with c True show ?thesis
        by (subst BasedReal_new.simps) simp
    next
      case False
      with Inr "1.prems"
      have "v = \<lparr>base = b, v_left = (if l = [] then [0] else l), v_right = r,
                 remainder = rem, sign = sg\<rparr>"
        by (subst (asm) BasedReal_new.simps) (auto simp: ret_def)
      with c False show ?thesis
        by (subst BasedReal_new.simps) (auto simp: ret_def)
    qed
  qed
qed

text \<open>A looping list over a non-empty pattern yields an element of the pattern.\<close>

lemma looping_get_mem: "xs \<noteq> [] \<Longrightarrow> looping_get xs i \<in> set xs"
proof -
  assume "xs \<noteq> []"
  then have pos: "0 < int (length xs)" by simp
  then have "i mod int (length xs) < int (length xs)" by (rule pos_mod_bound)
  moreover have "0 \<le> i mod int (length xs)" using pos by (rule pos_mod_sign)
  ultimately have "nat (i mod int (length xs)) < length xs" by linarith
  then show ?thesis by (simp add: looping_get_def)
qed

lemma radix_ge2: "valid_base b \<Longrightarrow> 2 \<le> radix_at b p"
  using looping_get_mem [of "left b" "p - 1"] looping_get_mem [of "right b" "p - 1"]
  by (auto simp: valid_base_def radix_at_def list_all_iff)

text \<open>In a valid base, whatever the constructor returns is a value.\<close>

lemma constructed_is_value:
  "valid_base b \<Longrightarrow> BasedReal_new b l r rem sg = ret v \<Longrightarrow> is_value v"
proof (induction b l r rem sg rule: BasedReal_new.induct)
  case (1 b l r rem sg)
  show ?case
  proof (cases "check_range b l r sg")
    case (Inl e)
    with "1.prems" show ?thesis
      by (subst (asm) BasedReal_new.simps) (simp add: ret_def raise_def)
  next
    case (Inr u)
    show ?thesis
    proof (cases "l \<noteq> [] \<and> hd l = 0")
      case True
      with Inr "1.prems" have "BasedReal_new b (dropWhile (\<lambda>x. x = 0) l) r rem sg = ret v"
        by (subst (asm) BasedReal_new.simps) simp
      with "1.IH" Inr True "1.prems" show ?thesis by blast
    next
      case False
      with Inr "1.prems"
      have v: "v = \<lparr>base = b, v_left = (if l = [] then [0] else l), v_right = r,
                 remainder = rem, sign = sg\<rparr>"
        by (subst (asm) BasedReal_new.simps) (auto simp: ret_def)
      show ?thesis
      proof (cases "l = []")
        case False
        with v "1.prems" show ?thesis by (simp add: is_value_def)
      next
        case True
        from Inr have sg: "sg = - 1 \<or> sg = 1"
          by (auto simp: check_range_def split: if_splits)
        have "check_range b [0] r sg = Inr ()"
          using sg radix_ge2 [OF "1.prems"(1), of 0] radix_ge2 [OF "1.prems"(1), of 1]
          by (auto simp: check_range_def)
        then have "BasedReal_new b [0] r rem sg = BasedReal_new b [] r rem sg"
          by (subst BasedReal_new.simps) simp
        with True v "1.prems" show ?thesis by (simp add: is_value_def)
      qed
    qed
  qed
qed

lemma from_float_base: "from_float b x s = ret c \<Longrightarrow> base c = b"
  by (auto simp: from_float_def Let_def raise_def ret_def
           split: option.splits sum.splits prod.splits if_splits
           dest: new_fields [unfolded ret_def])

lemma neg_base: "neg v = ret m \<Longrightarrow> base m = base v"
  by (auto simp: neg_def dest: new_fields)

subsection \<open>Scenarios\<close>

text \<open>
  Claim C1. In the sexagesimal base, the product of the values parsed from
  \<^verbatim>\<open>01, 12; 04, 17\<close> and \<^verbatim>\<open>7; 45, 55\<close> is rendered \<^verbatim>\<open>09,19 ; 39,15,40,35\<close>.
\<close>

theorem mul_scenario:
  "bnd (from_string py_float sexagesimal ''01, 12; 04, 17'') (\<lambda>a.
   bnd (from_string py_float sexagesimal ''7; 45, 55'') (\<lambda>b.
   bnd (mul a b) repr)) = ret ''09,19 ; 39,15,40,35''"
  by code_simp

text \<open>
  Claim C2. In the sexagesimal base, the sum of the values parsed from
  \<^verbatim>\<open>01, 21; 47, 25\<close> and \<^verbatim>\<open>45; 32, 14, 22\<close> is rendered \<^verbatim>\<open>02,07 ; 19,39,22\<close>.
\<close>

theorem add_scenario:
  "bnd (from_string py_float sexagesimal ''01, 21; 47, 25'') (\<lambda>a.
   bnd (from_string py_float sexagesimal ''45; 32, 14, 22'') (\<lambda>b.
   bnd (add a b) repr)) = ret ''02,07 ; 19,39,22''"
  by code_simp

text \<open>
  The rounding scenario of the spec's table: the sexagesimal value parsed from
  \<^verbatim>\<open>02, 02; 07, 23, 55, 11, 51, 21, 36\<close>, rounded to 4 positions, is rendered
  \<^verbatim>\<open>02,02 ; 07,23,55,12\<close>.
\<close>

lemma round_sexagesimal_scenario:
  "bnd (from_string py_float sexagesimal ''02, 02; 07, 23, 55, 11, 51, 21, 36'') (\<lambda>a.
   bnd (round_value a (Some 4)) repr) = ret ''02,02 ; 07,23,55,12''"
  by code_simp

subsection \<open>Truncation and shifting\<close>

text \<open>
  Claim C9, as the code has it. For every value \<open>v\<close> and every \<open>n \<ge> 0\<close>: when \<open>v\<close> has at
  least \<open>n\<close> fractional digits, \<^verbatim>\<open>truncate(n)\<close> returns the value with the first \<open>n\<close>
  fractional digits of \<open>v\<close>, remainder 0, and the sign and integer digits of \<open>v\<close>; when \<open>v\<close>
  has fewer than \<open>n\<close> fractional digits, it returns \<open>v\<close> itself, remainder included.
\<close>

theorem truncate_amended:
  assumes "is_value v" and "0 \<le> n"
  shows "truncate v n =
           ret (if n \<le> int (length (v_right v))
                then v\<lparr>v_right := take (nat n) (v_right v), remainder := 0\<rparr> else v)"
  using assms new_change_right [of "base v" "v_left v" "v_right v" "remainder v" "sign v" v]
  by (auto simp: truncate_def is_value_def py_upto_def)

theorem truncate_amended_witness:
  "is_value \<lparr>base = sexagesimal, v_left = [2, 2], v_right = [7, 23, 55], remainder = 1 / 4,
             sign = - 1\<rparr>
   \<and> truncate \<lparr>base = sexagesimal, v_left = [2, 2], v_right = [7, 23, 55], remainder = 1 / 4,
                sign = - 1\<rparr> 2
     = ret \<lparr>base = sexagesimal, v_left = [2, 2], v_right = [7, 23], remainder = 0, sign = - 1\<rparr>"
proof -
  have h: "is_value \<lparr>base = sexagesimal, v_left = [2, 2], v_right = [7, 23, 55],
                     remainder = 1 / 4, sign = - 1\<rparr>"
    by code_simp
  show ?thesis
    using h truncate_amended [OF h, of 2] by simp
qed

text \<open>
  The claim C9 as the spec states it fails: a sexagesimal zero with remainder one half and no
  fractional digit is a value, and \<^verbatim>\<open>truncate(1)\<close> returns it with its remainder.
\<close>

theorem truncate_counterexample:
  "is_value \<lparr>base = sexagesimal, v_left = [0], v_right = [], remainder = 1 / 2, sign = 1\<rparr>
   \<and> truncate \<lparr>base = sexagesimal, v_left = [0], v_right = [], remainder = 1 / 2, sign = 1\<rparr> 1
     = ret \<lparr>base = sexagesimal, v_left = [0], v_right = [], remainder = 1 / 2, sign = 1\<rparr>
   \<and> remainder \<lparr>base = sexagesimal, v_left = [0], v_right = [], remainder = 1 / 2, sign = 1\<rparr>
     \<noteq> 0"
  by code_simp

text \<open>
  Claim C10, as the code has it. Whenever \<^verbatim>\<open>shift(i)\<close> returns a value, that value has the
  sign of \<open>v\<close> and the remainder of \<open>v\<close>, unscaled.
\<close>

theorem shift_frame:
  assumes ok: "shift v i = ret w"
  shows "sign w = sign v \<and> remainder w = remainder v"
proof (cases "i = 0")
  case True
  then show ?thesis using ok by (simp add: shift_def ret_inject)
next
  case False
  with ok obtain l r where "BasedReal_new (base v) l r (remainder v) (sign v) = ret w"
    by (auto simp: shift_def Let_def)
  then show ?thesis by (auto dest: new_fields)
qed

theorem shift_frame_witness:
  "shift \<lparr>base = historical, v_left = [2, 7, 29], v_right = [45], remainder = 1 / 3, sign = - 1\<rparr> 2
     = ret \<lparr>base = historical, v_left = [2], v_right = [7, 29, 45], remainder = 1 / 3, sign = - 1\<rparr>
   \<and> sign \<lparr>base = historical, v_left = [2], v_right = [7, 29, 45], remainder = 1 / 3, sign = - 1\<rparr>
     = sign \<lparr>base = historical, v_left = [2, 7, 29], v_right = [45], remainder = 1 / 3, sign = - 1\<rparr>
   \<and> remainder \<lparr>base = historical, v_left = [2], v_right = [7, 29, 45], remainder = 1 / 3,
                 sign = - 1\<rparr>
     = remainder \<lparr>base = historical, v_left = [2, 7, 29], v_right = [45], remainder = 1 / 3,
                    sign = - 1\<rparr>"
proof -
  have h: "shift \<lparr>base = historical, v_left = [2, 7, 29], v_right = [45], remainder = 1 / 3,
                  sign = - 1\<rparr> 2
     = ret \<lparr>base = historical, v_left = [2], v_right = [7, 29, 45], remainder = 1 / 3,
             sign = - 1\<rparr>"
    by code_simp
  show ?thesis
    using h shift_frame [OF h] by simp
qed

text \<open>
  The claim C10 as stated does not hold for every value: in the base \<^verbatim>\<open>historical\<close> the
  integer 29 is a value, and \<^verbatim>\<open>shift(-1)\<close> moves its digit to the position of radix 12,
  where the constructor rejects it.
\<close>

theorem shift_counterexample:
  "is_value \<lparr>base = historical, v_left = [29], v_right = [], remainder = 0, sign = 1\<rparr>
   \<and> shift \<lparr>base = historical, v_left = [29], v_right = [], remainder = 0, sign = 1\<rparr> (- 1)
     = raise IllegalBaseValueError"
  by code_simp

subsection \<open>Operands bound to different bases\<close>

text \<open>
  Claim C7, as the code has it. For two values bound to different bases, division (the
  method \<^verbatim>\<open>division\<close> and the operator \<^verbatim>\<open>/\<close>) fails with \<^verbatim>\<open>TypeMismatch\<close>. Addition
  and subtraction do not: the other operand (negated first, for subtraction) is projected
  to a number, converted into the base of \<open>self\<close> at the precision of \<open>self\<close>, and added.
\<close>

theorem cross_base:
  assumes "base self \<noteq> base other"
  shows "division self other s = raise TypeMismatch
       \<and> truediv self other = raise TypeMismatch
       \<and> add self other
           = bnd (to_float other) (\<lambda>x.
             bnd (from_float (base self) x (int (length (v_right self)))) (\<lambda>c. add self c))
       \<and> sub self other
           = bnd (neg other) (\<lambda>m. bnd (to_float m) (\<lambda>x.
             bnd (from_float (base self) x (int (length (v_right self)))) (\<lambda>c. add self c)))"
proof -
  have conv: "add_float self x
                = bnd (from_float (base self) x (int (length (v_right self)))) (\<lambda>c. add self c)"
    for x
    unfolding add_float_def
    by (rule bnd_cong_ret) (auto simp: add_def dest: from_float_base)
  have a: "add self w = bnd (to_float w) (\<lambda>x.
             bnd (from_float (base self) x (int (length (v_right self)))) (\<lambda>c. add self c))"
    if "base self \<noteq> base w" for w
  proof -
    have "add self w = bnd (to_float w) (\<lambda>x. add_float self x)"
      using that by (simp add: add_def)
    then show ?thesis by (simp only: conv)
  qed
  have s: "sub self other
           = bnd (neg other) (\<lambda>m. bnd (to_float m) (\<lambda>x.
             bnd (from_float (base self) x (int (length (v_right self)))) (\<lambda>c. add self c)))"
    unfolding sub_def
    by (rule bnd_cong_ret) (use assms in \<open>auto dest!: neg_base intro!: a\<close>)
  show ?thesis
    using assms a [OF assms] s by (simp add: division_def truediv_def)
qed

theorem cross_base_witness:
  "base \<lparr>base = sexagesimal, v_left = [1], v_right = [30], remainder = 0, sign = 1\<rparr>
     \<noteq> base \<lparr>base = decimal, v_left = [2], v_right = [5], remainder = 0, sign = 1\<rparr>
   \<and> division \<lparr>base = sexagesimal, v_left = [1], v_right = [30], remainder = 0, sign = 1\<rparr>
               \<lparr>base = decimal, v_left = [2], v_right = [5], remainder = 0, sign = 1\<rparr> 3
     = raise TypeMismatch
   \<and> add \<lparr>base = sexagesimal, v_left = [1], v_right = [30], remainder = 0, sign = 1\<rparr>
          \<lparr>base = decimal, v_left = [2], v_right = [5], remainder = 0, sign = 1\<rparr>
     = bnd (to_float \<lparr>base = decimal, v_left = [2], v_right = [5], remainder = 0, sign = 1\<rparr>)
         (\<lambda>x. bnd (from_float sexagesimal x 1)
           (\<lambda>c. add \<lparr>base = sexagesimal, v_left = [1], v_right = [30], remainder = 0,
                       sign = 1\<rparr> c))"
proof -
  have h: "base \<lparr>base = sexagesimal, v_left = [1], v_right = [30], remainder = 0, sign = 1\<rparr>
     \<noteq> base \<lparr>base = decimal, v_left = [2], v_right = [5], remainder = 0, sign = 1\<rparr>"
    by code_simp
  show ?thesis
    using h cross_base [OF h, of 3] by simp
qed

text \<open>
  The claim C7 as stated fails for addition: the sexagesimal value \<open>1;30\<close> plus the decimal
  value \<open>2.5\<close> is the sexagesimal value \<open>4;00\<close>, not an error.
\<close>

theorem cross_base_add_counterexample:
  "sexagesimal \<noteq> decimal
   \<and> add \<lparr>base = sexagesimal, v_left = [1], v_right = [30], remainder = 0, sign = 1\<rparr>
          \<lparr>base = decimal, v_left = [2], v_right = [5], remainder = 0, sign = 1\<rparr>
     = ret \<lparr>base = sexagesimal, v_left = [4], v_right = [0], remainder = 0, sign = 1\<rparr>"
  by code_simp

subsection \<open>Where the code departs from its documentation\<close>

text \<open>
  Claim C8 (rounding). In the base \<^verbatim>\<open>temporal\<close>, whose fractional radices are 24 and 60,
  \<open>0;23,20\<close> is a value and stands for \<open>35/36\<close>. Resized to one fractional position it keeps
  the digit 23 and gets the remainder \<open>5/6\<close>: \<^verbatim>\<open>resize\<close> weighs the dropped digit 20 by
  the radix 24 of position 1, not by the radix 60 of its own position 2, where it is \<open>1/3\<close>
  of one unit of position 1. The resized value no longer stands for \<open>35/36\<close> but for
  \<open>143/144\<close>. Since \<open>5/6\<close> is at least one half, \<^verbatim>\<open>round\<close> adds a unit, the carry runs
  through the radix 24, and the result is \<open>1;00\<close>, although \<open>0;23\<close>, which stands for
  \<open>23/24\<close>, is nearer to \<open>35/36\<close> than 1 is.
\<close>

theorem round_temporal_rounds_up:
  "is_value \<lparr>base = temporal, v_left = [0], v_right = [23, 20], remainder = 0, sign = 1\<rparr>
   \<and> to_float \<lparr>base = temporal, v_left = [0], v_right = [23, 20], remainder = 0, sign = 1\<rparr>
     = ret (35 / 36)
   \<and> resize \<lparr>base = temporal, v_left = [0], v_right = [23, 20], remainder = 0, sign = 1\<rparr> 1
     = ret \<lparr>base = temporal, v_left = [0], v_right = [23], remainder = 5 / 6, sign = 1\<rparr>
   \<and> to_float \<lparr>base = temporal, v_left = [0], v_right = [23], remainder = 5 / 6, sign = 1\<rparr>
     = ret (143 / 144)
   \<and> round_value \<lparr>base = temporal, v_left = [0], v_right = [23, 20], remainder = 0, sign = 1\<rparr>
       (Some 1)
     = ret \<lparr>base = temporal, v_left = [1], v_right = [0], remainder = 0, sign = 1\<rparr>
   \<and> to_float \<lparr>base = temporal, v_left = [0], v_right = [23], remainder = 0, sign = 1\<rparr>
     = ret (23 / 24)
   \<and> to_float \<lparr>base = temporal, v_left = [1], v_right = [0], remainder = 0, sign = 1\<rparr>
     = ret 1"
  by code_simp

text \<open>
  Claim C3 (division inverse). \<^verbatim>\<open>division\<close> returns no quotient for any operands and any
  precision: operands of different types raise \<^verbatim>\<open>TypeMismatch\<close>, and for operands of one
  type the assignment \<^verbatim>\<open>num_nv.sign = 1\<close> to a read-only property raises (as would the
  unimplemented \<^verbatim>\<open>euclidian_div\<close> after it).
\<close>

theorem division_never_returns: "division a b s \<noteq> ret q"
  by (auto simp: division_def set_sign_def bnd_def raise_def ret_def)

text \<open>
  Claim C4 (digit invariant). The constructor accepts a digit equal to the radix of its
  position, and any fractional digit: in the sexagesimal base, whose radix is 60 at the
  positions 0 and 1, it returns values holding the integer digit 60 and the fractional
  digit 75.
\<close>

theorem check_range_accepts_out_of_range:
  "BasedReal_new sexagesimal [60] [] 0 1
     = ret \<lparr>base = sexagesimal, v_left = [60], v_right = [], remainder = 0, sign = 1\<rparr>
   \<and> radix_at sexagesimal 0 = 60
   \<and> BasedReal_new sexagesimal [0] [75] 0 1
     = ret \<lparr>base = sexagesimal, v_left = [0], v_right = [75], remainder = 0, sign = 1\<rparr>
   \<and> radix_at sexagesimal 1 = 60"
  by code_simp

text \<open>
  Claim C5 (registration). \<^verbatim>\<open>RadixBase.__init__\<close> checks nothing: for any radix lists, also
  with radices below 2, the base is stored in the registry under its name, with the radices
  it was given, and its number type is set in the module.
\<close>

theorem register_stores_any_base:
  "name_to_base (snd (RadixBase_init l r nm seps reg)) nm
     = Some (fst (RadixBase_init l r nm seps reg))
   \<and> module_types (snd (RadixBase_init l r nm seps reg))
        (concat (map capitalize (split_char CHR ''_'' nm)))
     = Some (fst (RadixBase_init l r nm seps reg))
   \<and> left (fst (RadixBase_init l r nm seps reg)) = l
   \<and> right (fst (RadixBase_init l r nm seps reg)) = r"
  by (simp add: RadixBase_init_def Let_def)

text \<open>
  Claim C6 (addition commutes). For the sexagesimal integers 5 and -5, \<open>5 + (-5)\<close> is a zero
  with sign -1 and \<open>(-5) + 5\<close> is a zero with sign +1, and \<^verbatim>\<open>==\<close> tells them apart.
\<close>

theorem add_tie_not_commutative:
  "add \<lparr>base = sexagesimal, v_left = [5], v_right = [], remainder = 0, sign = 1\<rparr>
       \<lparr>base = sexagesimal, v_left = [5], v_right = [], remainder = 0, sign = - 1\<rparr>
     = ret \<lparr>base = sexagesimal, v_left = [0], v_right = [], remainder = 0, sign = - 1\<rparr>
   \<and> add \<lparr>base = sexagesimal, v_left = [5], v_right = [], remainder = 0, sign = - 1\<rparr>
         \<lparr>base = sexagesimal, v_left = [5], v_right = [], remainder = 0, sign = 1\<rparr>
     = ret \<lparr>base = sexagesimal, v_left = [0], v_right = [], remainder = 0, sign = 1\<rparr>
   \<and> eq \<lparr>base = sexagesimal, v_left = [0], v_right = [], remainder = 0, sign = - 1\<rparr>
         \<lparr>base = sexagesimal, v_left = [0], v_right = [], remainder = 0, sign = 1\<rparr>
     = ret False"
  by code_simp

theorem add_tie_not_commutative_witness:
  "bnd (add \<lparr>base = sexagesimal, v_left = [5], v_right = [], remainder = 0, sign = 1\<rparr>
            \<lparr>base = sexagesimal, v_left = [5], v_right = [], remainder = 0, sign = - 1\<rparr>)
     (\<lambda>x. bnd (add \<lparr>base = sexagesimal, v_left = [5], v_right = [], remainder = 0, sign = - 1\<rparr>
                     \<lparr>base = sexagesimal, v_left = [5], v_right = [], remainder = 0, sign = 1\<rparr>)
       (\<lambda>y. eq x y)) = ret False"
  using add_tie_not_commutative by (simp add: bnd_ret)

end
